theory Spec2Isabelle
  imports Main
begin

section \<open>Data model of \<open>src/sources/intellij-source.ts\<close>\<close>

text \<open>
  The TypeScript interfaces are taken as typed: an optional field \<open>f?: T\<close> is a
  \<open>T option\<close> (\<open>None\<close> for \<open>undefined\<close>), a required field is a plain value.
  \<open>IntellijConnection\<close> refers to itself through \<open>configs\<close>, so it is a datatype with
  one selector per field (the field \<open>'code-version'\<close> is the selector \<open>code_version\<close>).
\<close>

datatype IntellijConnection = IntellijConnection
  (name: "string option")
  (hostname: "string option")
  (secureHostname: "string option")
  (username: "string option")
  (code_version: "string option")
  (clientId: "string option")
  (shortCode: "string option")
  (useOcapi: "bool option")
  (active: "bool option")
  (isGroup: "bool option")
  (configs: "IntellijConnection list option")

record ConnectionSettings =
  source :: "IntellijConnection list"

record AccessKeySet =
  ak_username :: string
  keys :: "string \<rightharpoonup> (string \<rightharpoonup> string)"

record Account =
  a_username :: string
  a_password :: "string option"
  hidePassword :: "bool option"
  accessKeys :: "AccessKeySet list option"

record OcapiKey =
  k_clientId :: string
  k_clientSecret :: string

record Credentials =
  accounts :: "Account list"
  ocapiKeys :: "OcapiKey list"

text \<open>
  \<open>NormalizedConfig\<close> is declared in the SDK; the fields below are the ones \<open>load\<close>
  writes. \<open>ResolveConfigOptions\<close> is read through its field \<open>instance\<close> only.
\<close>

record NormalizedConfig =
  cfg_hostname :: "string option"
  webdavHostname :: "string option"
  cfg_username :: "string option"
  codeVersion :: "string option"
  cfg_shortCode :: "string option"
  cfg_clientId :: "string option"
  password :: "string option"
  clientSecret :: "string option"

record ResolveConfigOptions =
  opt_instance :: "string option"

record IntelliJSource =
  projectFilePath :: "string option"

subsection \<open>JavaScript truthiness of the values the code tests\<close>

text \<open>
  \<open>undefined\<close>, \<open>false\<close> and the empty string are falsy; \<open>true\<close>, a non-empty
  string, an object and an array (also an empty one) are truthy.
\<close>

definition truthy_bool :: "bool option \<Rightarrow> bool" where
  "truthy_bool b = (b = Some True)"

definition truthy_str :: "string option \<Rightarrow> bool" where
  "truthy_str s = (case s of None \<Rightarrow> False | Some v \<Rightarrow> v \<noteq> [])"

section \<open>Flattening and selection (\<open>IntelliJSource.load\<close>, lines 203-218)\<close>

text \<open>
  \<open>connectionSettings.source.flatMap((source) =>
       source.isGroup && source.configs ? source.configs : [source])\<close>
\<close>

definition allConnections :: "IntellijConnection list \<Rightarrow> IntellijConnection list" where
  "allConnections src =
     concat (map (\<lambda>source.
       (case configs source of
          Some cs \<Rightarrow> if truthy_bool (isGroup source) then cs else [source]
        | None \<Rightarrow> [source])) src)"

text \<open>
  \<open>if (options.instance) connection = allConnections.find((c) => c.name === options.instance)
     else connection = allConnections.find((c) => c.active)\<close>
\<close>

definition findConnection ::
  "ResolveConfigOptions \<Rightarrow> IntellijConnection list \<Rightarrow> IntellijConnection option" where
  "findConnection options allC =
     (if truthy_str (opt_instance options)
      then find (\<lambda>c. name c = opt_instance options) allC
      else find (\<lambda>c. truthy_bool (active c)) allC)"

section \<open>The outside world\<close>

text \<open>
  What the functions read is explicit: the process environment and working directory, and
  the file system as a map from paths to nodes. Node's \<open>existsSync\<close> is true for any
  existing path, also a directory, and \<open>readFileSync\<close> throws on a directory
  (\<open>EISDIR\<close>) and on a missing path (\<open>ENOENT\<close>). A thrown exception is the \<open>Inl\<close>
  of a sum; a normal return is \<open>Inr\<close>.
\<close>

datatype error = FsError string | XmlError string | JsonError string | CipherError string

datatype fsnode = File string | Directory

record world =
  env :: "string \<rightharpoonup> string"
  cwd :: string
  fs :: "string \<rightharpoonup> fsnode"

definition existsSync :: "(string \<rightharpoonup> fsnode) \<Rightarrow> string \<Rightarrow> bool" where
  "existsSync files path = (files path \<noteq> None)"

definition readFileSync :: "(string \<rightharpoonup> fsnode) \<Rightarrow> string \<Rightarrow> error + string" where
  "readFileSync files path =
     (case files path of
        Some (File content) \<Rightarrow> Inr content
      | Some Directory \<Rightarrow> Inl (FsError ''EISDIR'')
      | None \<Rightarrow> Inl (FsError ''ENOENT''))"

text \<open>
  The document \<open>XMLParser.parse\<close> returns with \<open>preserveOrder: true\<close>: an array of
  nodes, each an object with one property named after its tag that holds the array of its
  children, and a property \<open>':@'\<close> holding its attributes. A text node holds its string
  under \<open>textNodeName\<close> and has no attributes.
\<close>

datatype xml_node =
    Element string "string \<rightharpoonup> string" "xml_node list"
  | Text string

text \<open>\<open>el.tag\<close>: the children array when the node is an element of that tag.\<close>

fun node_prop :: "xml_node \<Rightarrow> string \<Rightarrow> xml_node list option" where
  "node_prop (Element t atts cs) k = (if t = k then Some cs else None)"
| "node_prop (Text s) k = None"

text \<open>\<open>el[':@']?.key\<close>\<close>

fun node_attr :: "xml_node \<Rightarrow> string \<Rightarrow> string option" where
  "node_attr (Element t atts cs) k = atts k"
| "node_attr (Text s) k = None"

text \<open>
  The library calls are parameters, each free to throw: \<open>path.join\<close>, the XML parser of
  \<open>fast-xml-parser\<close> (configured and given its two entities in lines 80-91),
  \<open>JSON.parse\<close> at the two types it is cast to (\<open>None\<close> is the JSON value
  \<open>null\<close>), and the calls on \<open>Buffer\<close> and \<open>node:crypto\<close>. \<open>'b\<close> is the type of buffers, \<open>'d\<close> of decipher objects;
  \<open>update\<close> returns the decipher in its new state with its output.
\<close>

record ('b, 'd) platform =
  path_join :: "string \<Rightarrow> string \<Rightarrow> string"
  xml_parse :: "string \<Rightarrow> error + xml_node list"
  json_parse_settings :: "string \<Rightarrow> error + ConnectionSettings option"
  buffer_from_base64 :: "string \<Rightarrow> error + 'b"
  createDecipheriv :: "string \<Rightarrow> string \<Rightarrow> error + 'd"
  decipher_update :: "'d \<Rightarrow> 'b \<Rightarrow> error + ('b \<times> 'd)"
  decipher_final :: "'d \<Rightarrow> error + 'b"
  buffer_concat :: "'b list \<Rightarrow> 'b"
  buffer_toString_utf8 :: "'b \<Rightarrow> string"
  json_parse_credentials :: "string \<Rightarrow> error + Credentials option"

definition DEFAULT_PROJECT_FILE :: string where
  "DEFAULT_PROJECT_FILE = ''./.idea/misc.xml''"

definition DEFAULT_ALGORITHM :: string where
  "DEFAULT_ALGORITHM = ''aes-192-ecb''"

section \<open>\<open>getConnectionSettings\<close> (lines 73-130)\<close>

text \<open>
  Only \<open>JSON.parse\<close> stands inside a \<open>try\<close>; \<open>readFileSync\<close> and
  \<open>parser.parse\<close> are called outside it, so what they throw leaves the function.
\<close>

definition getConnectionSettings ::
  "('b, 'd) platform \<Rightarrow> (string \<rightharpoonup> fsnode) \<Rightarrow> string \<Rightarrow> error + ConnectionSettings option" where
  "getConnectionSettings P files filename =
     (if \<not> existsSync files filename then Inr None
      else case readFileSync files filename of
        Inl e \<Rightarrow> Inl e
      | Inr content \<Rightarrow>
     (case xml_parse P content of
        Inl e \<Rightarrow> Inl e
      | Inr xml \<Rightarrow>
     (case find (\<lambda>el. node_prop el ''project'' \<noteq> None) xml of
        None \<Rightarrow> Inr None
      | Some projectEl \<Rightarrow>
     (case node_prop projectEl ''project'' of
        None \<Rightarrow> Inr None
      | Some project \<Rightarrow>
     (case find (\<lambda>el. node_prop el ''component'' \<noteq> None
                    \<and> node_attr el ''name'' = Some ''IntellijSFCCConnectionSettings'') project of
        None \<Rightarrow> Inr None
      | Some connectionSettingsComponent \<Rightarrow>
     (case node_prop connectionSettingsComponent ''component'' of
        None \<Rightarrow> Inr None
      | Some component \<Rightarrow>
     (case find (\<lambda>opt. node_attr opt ''name'' = Some ''json'') component of
        None \<Rightarrow> Inr None
      | Some jsonOption \<Rightarrow>
     (case node_attr jsonOption ''value'' of
        None \<Rightarrow> Inr None
      | Some jsonValue \<Rightarrow>
          if jsonValue = [] then Inr None
          else (case json_parse_settings P jsonValue of
                  Inl e \<Rightarrow> Inr None
                | Inr settings \<Rightarrow> Inr settings)))))))))"

section \<open>\<open>decryptCredentials\<close> (lines 140-149)\<close>

text \<open>\<open>try { body } catch { handler }\<close>\<close>

definition try_catch :: "error + 'a \<Rightarrow> (error \<Rightarrow> error + 'a) \<Rightarrow> error + 'a" where
  "try_catch body handler = (case body of Inl e \<Rightarrow> handler e | Inr v \<Rightarrow> Inr v)"

definition decryptCredentials ::
  "('b, 'd) platform \<Rightarrow> string \<Rightarrow> string \<Rightarrow> string \<Rightarrow> error + Credentials option" where
  "decryptCredentials P cipherText key algorithm =
     try_catch
       (case buffer_from_base64 P cipherText of
          Inl e \<Rightarrow> Inl e
        | Inr buffer \<Rightarrow>
       (case createDecipheriv P algorithm key of
          Inl e \<Rightarrow> Inl e
        | Inr decipher \<Rightarrow>
       (case decipher_update P decipher buffer of
          Inl e \<Rightarrow> Inl e
        | Inr (out1, decipher') \<Rightarrow>
       (case decipher_final P decipher' of
          Inl e \<Rightarrow> Inl e
        | Inr out2 \<Rightarrow>
            json_parse_credentials P
              (buffer_toString_utf8 P (buffer_concat P [out1, out2]))))))
       (\<lambda>e. Inr None)"

section \<open>\<open>findPassword\<close> and \<open>findClientSecret\<close> (lines 154-179)\<close>

definition findPassword :: "Credentials \<Rightarrow> string \<Rightarrow> string \<Rightarrow> string option" where
  "findPassword credentials uname host =
     (case find (\<lambda>a. a_username a = uname) (accounts credentials) of
        None \<Rightarrow> None
      | Some account \<Rightarrow>
          (let accessKeySet =
                 (case accessKeys account of
                    None \<Rightarrow> None
                  | Some aks \<Rightarrow> find (\<lambda>ak. ak_username ak = uname) aks)
           in case accessKeySet of
                None \<Rightarrow> a_password account
              | Some ak \<Rightarrow>
                  (case keys ak host of
                     None \<Rightarrow> a_password account
                   | Some hostKeys \<Rightarrow>
                       if truthy_str (hostKeys ''WebDAV'') then hostKeys ''WebDAV''
                       else a_password account)))"

definition findClientSecret :: "Credentials \<Rightarrow> string \<Rightarrow> string option" where
  "findClientSecret credentials cid =
     (case find (\<lambda>k. k_clientId k = cid) (ocapiKeys credentials) of
        None \<Rightarrow> None
      | Some ocapiKey \<Rightarrow> Some (k_clientSecret ocapiKey))"

section \<open>\<open>IntelliJSource.load\<close> (lines 192-263)\<close>

text \<open>Lines 220-232: the five base fields, and \<open>clientId\<close> under its guard.\<close>

definition baseConfig :: "IntellijConnection \<Rightarrow> NormalizedConfig" where
  "baseConfig connection =
     \<lparr> cfg_hostname = hostname connection,
       webdavHostname = secureHostname connection,
       cfg_username = username connection,
       codeVersion = code_version connection,
       cfg_shortCode = shortCode connection,
       cfg_clientId =
         (if truthy_bool (useOcapi connection) \<and> truthy_str (clientId connection)
          then clientId connection else None),
       password = None,
       clientSecret = None \<rparr>"

text \<open>Lines 244-250: the password, when the connection has a user name and a host name.\<close>

definition lookupPassword ::
  "Credentials \<Rightarrow> IntellijConnection \<Rightarrow> NormalizedConfig \<Rightarrow> NormalizedConfig" where
  "lookupPassword credentials connection config =
     (case (username connection, hostname connection) of
        (Some u, Some h) \<Rightarrow>
          if u \<noteq> [] \<and> h \<noteq> [] then
            (let pw = findPassword credentials u h
             in if truthy_str pw then config\<lparr>password := pw\<rparr> else config)
          else config
      | _ \<Rightarrow> config)"

text \<open>Lines 252-258: the client secret, when \<open>config.clientId\<close> was set.\<close>

definition lookupClientSecret :: "Credentials \<Rightarrow> NormalizedConfig \<Rightarrow> NormalizedConfig" where
  "lookupClientSecret credentials config =
     (case cfg_clientId config of
        None \<Rightarrow> config
      | Some cid \<Rightarrow>
          if cid \<noteq> [] then
            (let secret = findClientSecret credentials cid
             in if truthy_str secret then config\<lparr>clientSecret := secret\<rparr> else config)
          else config)"

text \<open>Line 194. \<open>??\<close> replaces only \<open>undefined\<close>: a variable set to the empty string stays.\<close>

definition projectFile :: "('b, 'd) platform \<Rightarrow> world \<Rightarrow> string" where
  "projectFile P w =
     (case env w ''SFCC_INTELLIJ_PROJECT_FILE'' of
        Some p \<Rightarrow> p
      | None \<Rightarrow> path_join P (cwd w) DEFAULT_PROJECT_FILE)"

text \<open>Lines 197-218: the settings, the flattened list and the connection chosen from it.\<close>

definition resolveConnection ::
  "('b, 'd) platform \<Rightarrow> world \<Rightarrow> ResolveConfigOptions \<Rightarrow> error + IntellijConnection option" where
  "resolveConnection P w options =
     (case getConnectionSettings P (fs w) (projectFile P w) of
        Inl e \<Rightarrow> Inl e
      | Inr None \<Rightarrow> Inr None
      | Inr (Some connectionSettings) \<Rightarrow>
          if source connectionSettings = [] then Inr None
          else Inr (findConnection options (allConnections (source connectionSettings))))"

text \<open>Lines 220-262: the configuration built from the chosen connection.\<close>

definition assemble ::
  "('b, 'd) platform \<Rightarrow> world \<Rightarrow> IntellijConnection \<Rightarrow> error + NormalizedConfig" where
  "assemble P w connection =
     (let config = baseConfig connection;
          credentialsFile = env w ''SFCC_INTELLIJ_CREDENTIALS_FILE'';
          credentialsKey = env w ''SFCC_INTELLIJ_CREDENTIALS_KEY'';
          algorithm =
            (case env w ''SFCC_INTELLIJ_ALGORITHM'' of
               Some a \<Rightarrow> a
             | None \<Rightarrow> DEFAULT_ALGORITHM)
      in
      (case (credentialsFile, credentialsKey) of
         (Some file, Some key) \<Rightarrow>
           if file \<noteq> [] \<and> key \<noteq> [] \<and> existsSync (fs w) file then
             (case readFileSync (fs w) file of
                Inl e \<Rightarrow> Inl e
              | Inr cipherText \<Rightarrow>
             (case decryptCredentials P cipherText key algorithm of
                Inl e \<Rightarrow> Inl e
              | Inr None \<Rightarrow> Inr config
              | Inr (Some credentials) \<Rightarrow>
                  Inr (lookupClientSecret credentials
                         (lookupPassword credentials connection config))))
           else Inr config
       | _ \<Rightarrow> Inr config))"

text \<open>
  The method assigns \<open>this.projectFilePath\<close> before anything else, so the second
  component of the result is the object after the call, whether the call returns or throws.
\<close>

definition load ::
  "('b, 'd) platform \<Rightarrow> world \<Rightarrow> ResolveConfigOptions \<Rightarrow> IntelliJSource
     \<Rightarrow> (error + NormalizedConfig option) \<times> IntelliJSource" where
  "load P w options this =
     ((case resolveConnection P w options of
         Inl e \<Rightarrow> Inl e
       | Inr None \<Rightarrow> Inr None
       | Inr (Some connection) \<Rightarrow>
           (case assemble P w connection of
              Inl e \<Rightarrow> Inl e
            | Inr config \<Rightarrow> Inr (Some config))),
      this\<lparr>projectFilePath := Some (projectFile P w)\<rparr>)"

definition getPath :: "IntelliJSource \<Rightarrow> string option" where
  "getPath this = projectFilePath this"

section \<open>The scenario of the specification, as data\<close>

text \<open>
  Two connections \<open>staging\<close> (not active) and \<open>prod\<close> (active, host \<open>h1\<close>, user
  \<open>u1\<close>), here as the children of a group that stands between two plain records, and a
  credential store whose account \<open>u1\<close> has a WebDAV key for \<open>h1\<close> and a plain password.
  The arguments of \<open>IntellijConnection\<close> are, in this order: name, hostname,
  secureHostname, username, code-version, clientId, shortCode, useOcapi, active, isGroup,
  configs.
\<close>

definition conn_staging :: IntellijConnection where
  "conn_staging =
     IntellijConnection (Some ''staging'') (Some ''h0'') None (Some ''u0'') None
       (Some ''cid0'') None (Some False) (Some False) None None"

definition conn_prod :: IntellijConnection where
  "conn_prod =
     IntellijConnection (Some ''prod'') (Some ''h1'') (Some ''cert.h1'') (Some ''u1'')
       (Some ''v1'') (Some ''cid1'') (Some ''sc'') (Some True) (Some True) None None"

definition group_sandboxes :: IntellijConnection where
  "group_sandboxes =
     IntellijConnection (Some ''sandboxes'') None None None None None None None
       (Some True) (Some True) (Some [conn_staging, conn_prod])"

definition conn_dev :: IntellijConnection where
  "conn_dev =
     IntellijConnection (Some ''dev'') (Some ''h2'') None (Some ''u2'') None None None
       None (Some False) (Some False) None"

definition conn_qa :: IntellijConnection where
  "conn_qa =
     IntellijConnection (Some ''qa'') (Some ''h3'') None (Some ''u3'') None None None
       None (Some True) None None"

text \<open>A record whose name is the empty string.\<close>

definition conn_unnamed :: IntellijConnection where
  "conn_unnamed =
     IntellijConnection (Some []) (Some ''h4'') None None None None None
       None (Some False) None None"

definition store :: Credentials where
  "store =
     \<lparr> accounts =
         [\<lparr> a_username = ''u1'', a_password = Some ''secret2'', hidePassword = None,
            accessKeys =
              Some [\<lparr> ak_username = ''u1'',
                      keys = [''h1'' \<mapsto> [''WebDAV'' \<mapsto> ''secret1'']] \<rparr>] \<rparr>,
          \<lparr> a_username = ''u3'', a_password = Some ''secret3'', hidePassword = None,
            accessKeys = None \<rparr>],
       ocapiKeys = [\<lparr> k_clientId = ''cid1'', k_clientSecret = ''cs1'' \<rparr>] \<rparr>"

text \<open>The same account with the empty string as its WebDAV entry for \<open>h1\<close>.\<close>

definition empty_key_set :: AccessKeySet where
  "empty_key_set = \<lparr> ak_username = ''u1'', keys = [''h1'' \<mapsto> [''WebDAV'' \<mapsto> []]] \<rparr>"

definition empty_key_account :: Account where
  "empty_key_account =
     \<lparr> a_username = ''u1'', a_password = Some ''secret2'', hidePassword = None,
       accessKeys = Some [empty_key_set] \<rparr>"

definition store_empty_key :: Credentials where
  "store_empty_key = \<lparr> accounts = [empty_key_account], ocapiKeys = [] \<rparr>"

text \<open>Two accounts of one user name: the first has a password only, the second a key.\<close>

definition plain_account :: Account where
  "plain_account =
     \<lparr> a_username = ''u1'', a_password = Some ''old'', hidePassword = None,
       accessKeys = None \<rparr>"

definition keyed_account :: Account where
  "keyed_account =
     \<lparr> a_username = ''u1'', a_password = Some ''secret2'', hidePassword = None,
       accessKeys =
         Some [\<lparr> ak_username = ''u1'',
                 keys = [''h1'' \<mapsto> [''WebDAV'' \<mapsto> ''secret1'']] \<rparr>] \<rparr>"

definition store_duplicate :: Credentials where
  "store_duplicate = \<lparr> accounts = [plain_account, keyed_account], ocapiKeys = [] \<rparr>"

text \<open>A store whose password for \<open>u1\<close> and whose secret for \<open>cid1\<close> are empty strings.\<close>

definition store_blank :: Credentials where
  "store_blank =
     \<lparr> accounts =
         [\<lparr> a_username = ''u1'', a_password = Some [], hidePassword = None,
            accessKeys = None \<rparr>],
       ocapiKeys = [\<lparr> k_clientId = ''cid1'', k_clientSecret = [] \<rparr>] \<rparr>"

text \<open>
  A platform for the scenario. The one settings document and the one credentials text it
  knows parse to the data above, anything else is rejected. Its cipher is a toy that
  keeps the key as its state: it refuses a key that is not 24 characters long or an
  algorithm other than the default, passes its input through, and fails at the end
  under any key but the right one.
\<close>

definition misc_xml :: "xml_node list" where
  "misc_xml =
     [Element ''?xml'' [''version'' \<mapsto> ''1.0''] [],
      Element ''project'' [''version'' \<mapsto> ''4'']
        [Element ''component'' [''name'' \<mapsto> ''IntellijSFCCConnectionSettings'']
           [Element ''option'' [''name'' \<mapsto> ''json'', ''value'' \<mapsto> ''{settings}''] []]]]"

definition scenario :: "(string, string) platform" where
  "scenario =
     \<lparr> path_join = (\<lambda>a b. a @ ''/'' @ b),
       xml_parse = (\<lambda>s. if s = ''<misc/>'' then Inr misc_xml
                          else Inl (XmlError ''Closing Tag is not closed.'')),
       json_parse_settings =
         (\<lambda>s. if s = ''{settings}'' then Inr (Some \<lparr> source = [conn_dev, group_sandboxes, conn_qa] \<rparr>)
               else Inl (JsonError ''Unexpected token'')),
       buffer_from_base64 = (\<lambda>s. Inr s),
       createDecipheriv =
         (\<lambda>a k. if a = ''aes-192-ecb'' \<and> length k = 24 then Inr k
                 else Inl (CipherError ''Invalid key length'')),
       decipher_update = (\<lambda>d b. Inr (b, d)),
       decipher_final =
         (\<lambda>d. if d = ''0123456789abcdef01234567'' then Inr []
               else Inl (CipherError ''bad decrypt'')),
       buffer_concat = concat,
       buffer_toString_utf8 = (\<lambda>b. b),
       json_parse_credentials =
         (\<lambda>s. if s = ''{store}'' then Inr (Some store)
               else Inl (JsonError ''Unexpected token'')) \<rparr>"

definition scenario_world :: world where
  "scenario_world =
     \<lparr> env = [''SFCC_INTELLIJ_PROJECT_FILE'' \<mapsto> ''misc.xml'',
              ''SFCC_INTELLIJ_CREDENTIALS_FILE'' \<mapsto> ''creds'',
              ''SFCC_INTELLIJ_CREDENTIALS_KEY'' \<mapsto> ''0123456789abcdef01234567''],
       cwd = ''/work'',
       fs = [''misc.xml'' \<mapsto> File ''<misc/>'', ''creds'' \<mapsto> File ''{store}'',
             ''/work/.idea'' \<mapsto> Directory] \<rparr>"

text \<open>The same platform with a settings document whose first record is named \<open>""\<close>.\<close>

definition scenario_unnamed :: "(string, string) platform" where
  "scenario_unnamed =
     scenario\<lparr> json_parse_settings :=
       (\<lambda>s. if s = ''{settings}'' then Inr (Some \<lparr> source = [conn_unnamed, conn_qa] \<rparr>)
             else Inl (JsonError ''Unexpected token'')) \<rparr>"

section \<open>Evaluating the scenario\<close>

lemma scenario_settings:
  "getConnectionSettings scenario (fs scenario_world) (projectFile scenario scenario_world)
     = Inr (Some \<lparr> source = [conn_dev, group_sandboxes, conn_qa] \<rparr>)"
  by (simp add: getConnectionSettings_def projectFile_def existsSync_def readFileSync_def
        scenario_def scenario_world_def misc_xml_def)

lemma scenario_flattened:
  "allConnections [conn_dev, group_sandboxes, conn_qa]
     = [conn_dev, conn_staging, conn_prod, conn_qa]"
  by (simp add: allConnections_def truthy_bool_def conn_dev_def group_sandboxes_def conn_qa_def)

lemma scenario_active:
  "findConnection \<lparr>opt_instance = None\<rparr> [conn_dev, conn_staging, conn_prod, conn_qa]
     = Some conn_prod"
  by (simp add: findConnection_def truthy_str_def truthy_bool_def
        conn_dev_def conn_staging_def conn_prod_def)

lemma scenario_resolve:
  "resolveConnection scenario scenario_world \<lparr>opt_instance = None\<rparr> = Inr (Some conn_prod)"
  by (simp add: resolveConnection_def scenario_settings scenario_flattened scenario_active)

lemma scenario_decrypt:
  "decryptCredentials scenario ''{store}'' ''0123456789abcdef01234567'' ''aes-192-ecb''
     = Inr (Some store)"
  by (simp add: decryptCredentials_def try_catch_def scenario_def)

lemma scenario_password: "findPassword store ''u1'' ''h1'' = Some ''secret1''"
  by (simp add: findPassword_def store_def truthy_str_def)

lemma scenario_secret: "findClientSecret store ''cid1'' = Some ''cs1''"
  by (simp add: findClientSecret_def store_def)

lemma scenario_base:
  "baseConfig conn_prod =
     \<lparr> cfg_hostname = Some ''h1'', webdavHostname = Some ''cert.h1'',
       cfg_username = Some ''u1'', codeVersion = Some ''v1'', cfg_shortCode = Some ''sc'',
       cfg_clientId = Some ''cid1'', password = None, clientSecret = None \<rparr>"
  by (simp add: baseConfig_def conn_prod_def truthy_bool_def truthy_str_def)

lemma scenario_lookup:
  "lookupClientSecret store (lookupPassword store conn_prod (baseConfig conn_prod)) =
     \<lparr> cfg_hostname = Some ''h1'', webdavHostname = Some ''cert.h1'',
       cfg_username = Some ''u1'', codeVersion = Some ''v1'', cfg_shortCode = Some ''sc'',
       cfg_clientId = Some ''cid1'', password = Some ''secret1'',
       clientSecret = Some ''cs1'' \<rparr>"
proof -
  have "username conn_prod = Some ''u1''" and "hostname conn_prod = Some ''h1''"
    by (simp_all add: conn_prod_def)
  then have "lookupPassword store conn_prod (baseConfig conn_prod)
               = (baseConfig conn_prod)\<lparr>password := Some ''secret1''\<rparr>"
    by (simp add: lookupPassword_def Let_def scenario_password truthy_str_def)
  then show ?thesis
    by (simp add: lookupClientSecret_def Let_def scenario_base scenario_secret truthy_str_def)
qed

lemma scenario_assemble:
  "assemble scenario scenario_world conn_prod =
     Inr \<lparr> cfg_hostname = Some ''h1'', webdavHostname = Some ''cert.h1'',
           cfg_username = Some ''u1'', codeVersion = Some ''v1'', cfg_shortCode = Some ''sc'',
           cfg_clientId = Some ''cid1'', password = Some ''secret1'',
           clientSecret = Some ''cs1'' \<rparr>"
  by (simp add: assemble_def scenario_world_def existsSync_def readFileSync_def
        DEFAULT_ALGORITHM_def scenario_decrypt scenario_lookup)

lemma scenario_load:
  "fst (load scenario scenario_world \<lparr>opt_instance = None\<rparr> this) =
     Inr (Some \<lparr> cfg_hostname = Some ''h1'', webdavHostname = Some ''cert.h1'',
                 cfg_username = Some ''u1'', codeVersion = Some ''v1'',
                 cfg_shortCode = Some ''sc'', cfg_clientId = Some ''cid1'',
                 password = Some ''secret1'', clientSecret = Some ''cs1'' \<rparr>)"
  by (simp add: load_def scenario_resolve scenario_assemble)

section \<open>Flattening\<close>

lemma size_in_list: "c \<in> set cs \<Longrightarrow> size (c::IntellijConnection) \<le> size_list size cs"
  by (induction cs) auto

lemma group_not_own_child: "configs g = Some cs \<Longrightarrow> g \<notin> set cs"
proof
  assume "configs g = Some cs" and "g \<in> set cs"
  then have "size g < size g"
    by (cases g) (auto dest: size_in_list)
  then show False by simp
qed

lemma allConnections_append:
  "allConnections (xs @ ys) = allConnections xs @ allConnections ys"
  by (simp add: allConnections_def)

lemma allConnections_group_Cons:
  "isGroup g = Some True \<Longrightarrow> configs g = Some cs
     \<Longrightarrow> allConnections (g # xs) = cs @ allConnections xs"
  by (simp add: allConnections_def truthy_bool_def)

lemma allConnections_plain_Cons:
  "isGroup s \<noteq> Some True \<or> configs s = None
     \<Longrightarrow> allConnections (s # xs) = s # allConnections xs"
  by (auto simp: allConnections_def truthy_bool_def split: option.splits)

lemma group_not_flattened:
  assumes "isGroup g = Some True" and "configs g = Some cs"
    and "\<forall>s\<in>set src. \<forall>cs'. isGroup s = Some True \<and> configs s = Some cs' \<longrightarrow> g \<notin> set cs'"
  shows "g \<notin> set (allConnections src)"
  using assms(3)
proof (induction src)
  case Nil
  then show ?case by (simp add: allConnections_def)
next
  case (Cons s src)
  then have rest: "g \<notin> set (allConnections src)" by simp
  show ?case
  proof (cases "isGroup s = Some True \<and> configs s \<noteq> None")
    case True
    then obtain cs' where cs': "configs s = Some cs'" by auto
    with True Cons.prems have "g \<notin> set cs'" by simp
    with rest True cs' show ?thesis by (simp add: allConnections_group_Cons)
  next
    case False
    then have "allConnections (s # src) = s # allConnections src"
      by (intro allConnections_plain_Cons) auto
    moreover have "g \<noteq> s" using False assms(1,2) by auto
    ultimately show ?thesis using rest by simp
  qed
qed

lemma findConnection_mem: "findConnection options xs = Some c \<Longrightarrow> c \<in> set xs"
  by (auto simp: findConnection_def find_Some_iff split: if_splits)

text \<open>
  C1. A top-level record \<open>g\<close> with \<open>isGroup = true\<close> and the children \<open>cs\<close> is
  replaced, at its place in the list, by exactly \<open>cs\<close> in their order; a record that is
  not a group stays where it is, unchanged; and selection, by name or by the active flag,
  never returns \<open>g\<close>. Records are compared as values here, so the last part is stated
  for a settings list in which no other group holds a copy of \<open>g\<close> among its children
  (the supported format nests groups one level only); \<open>g\<close> is never one of its own
  children.
\<close>

theorem allConnections_group:
  assumes "isGroup g = Some True" and "configs g = Some cs"
  shows "allConnections (pre @ g # post) = allConnections pre @ cs @ allConnections post
       \<and> (\<forall>xs s ys. isGroup s \<noteq> Some True \<longrightarrow>
             allConnections (xs @ s # ys) = allConnections xs @ s # allConnections ys)
       \<and> ((\<forall>s\<in>set (pre @ post). \<forall>cs'.
               isGroup s = Some True \<and> configs s = Some cs' \<longrightarrow> g \<notin> set cs')
             \<longrightarrow> findConnection options (allConnections (pre @ g # post)) \<noteq> Some g)"
proof (intro conjI allI impI)
  show "allConnections (pre @ g # post) = allConnections pre @ cs @ allConnections post"
    using assms by (simp add: allConnections_append allConnections_group_Cons)
next
  fix xs s ys
  assume "isGroup s \<noteq> Some True"
  then show "allConnections (xs @ s # ys) = allConnections xs @ s # allConnections ys"
    by (simp add: allConnections_append allConnections_plain_Cons)
next
  assume others: "\<forall>s\<in>set (pre @ post). \<forall>cs'.
                    isGroup s = Some True \<and> configs s = Some cs' \<longrightarrow> g \<notin> set cs'"
  have "g \<notin> set cs"
    using assms(2) by (rule group_not_own_child)
  with others assms
  have "\<forall>s\<in>set (pre @ g # post). \<forall>cs'.
          isGroup s = Some True \<and> configs s = Some cs' \<longrightarrow> g \<notin> set cs'"
    by auto
  with assms have "g \<notin> set (allConnections (pre @ g # post))"
    by (rule group_not_flattened)
  then show "findConnection options (allConnections (pre @ g # post)) \<noteq> Some g"
    using findConnection_mem by blast
qed

theorem allConnections_group_witness:
  "isGroup group_sandboxes = Some True
   \<and> configs group_sandboxes = Some [conn_staging, conn_prod]
   \<and> allConnections ([conn_dev] @ group_sandboxes # [conn_qa])
       = [conn_dev] @ [conn_staging, conn_prod] @ [conn_qa]
   \<and> findConnection \<lparr>opt_instance = Some ''sandboxes''\<rparr>
         (allConnections ([conn_dev] @ group_sandboxes # [conn_qa])) \<noteq> Some group_sandboxes
   \<and> findConnection \<lparr>opt_instance = None\<rparr>
         (allConnections ([conn_dev] @ group_sandboxes # [conn_qa])) \<noteq> Some group_sandboxes"
proof -
  have g: "isGroup group_sandboxes = Some True"
    "configs group_sandboxes = Some [conn_staging, conn_prod]"
    by (simp_all add: group_sandboxes_def)
  have plain: "allConnections [conn_dev] = [conn_dev]" "allConnections [conn_qa] = [conn_qa]"
    by (simp_all add: allConnections_def conn_dev_def conn_qa_def)
  have others: "\<forall>s\<in>set ([conn_dev] @ [conn_qa]). \<forall>cs'.
                  isGroup s = Some True \<and> configs s = Some cs' \<longrightarrow> group_sandboxes \<notin> set cs'"
    by (simp add: conn_dev_def conn_qa_def)
  note byname = allConnections_group
    [OF g, of "[conn_dev]" "[conn_qa]" "\<lparr>opt_instance = Some ''sandboxes''\<rparr>"]
  note byflag = allConnections_group
    [OF g, of "[conn_dev]" "[conn_qa]" "\<lparr>opt_instance = None\<rparr>"]
  from byname plain
  have flat: "allConnections ([conn_dev] @ group_sandboxes # [conn_qa])
                = [conn_dev] @ [conn_staging, conn_prod] @ [conn_qa]"
    by simp
  from byname others
  have n: "findConnection \<lparr>opt_instance = Some ''sandboxes''\<rparr>
             (allConnections ([conn_dev] @ group_sandboxes # [conn_qa])) \<noteq> Some group_sandboxes"
    by blast
  from byflag others
  have a: "findConnection \<lparr>opt_instance = None\<rparr>
             (allConnections ([conn_dev] @ group_sandboxes # [conn_qa])) \<noteq> Some group_sandboxes"
    by blast
  from g flat n a show ?thesis
    by (intro conjI)
qed

section \<open>Selection\<close>

lemma find_first:
  "P c \<Longrightarrow> \<forall>p\<in>set pre. \<not> P p \<Longrightarrow> find P (pre @ c # post) = Some c"
  by (induction pre) auto

lemma find_none: "\<forall>c\<in>set xs. \<not> P c \<Longrightarrow> find P xs = None"
  by (simp add: find_None_iff)

lemma findConnection_falsy_instance:
  "\<not> truthy_str (opt_instance options)
     \<Longrightarrow> findConnection options xs = find (\<lambda>c. truthy_bool (active c)) xs"
  by (simp add: findConnection_def)

text \<open>
  C5, as amended. For a non-empty instance name \<open>n\<close>, selection returns the first record
  of the flattened list whose name is exactly \<open>n\<close>, whatever the active flags are, and
  nothing when no record has that name. The empty name is not searched for.
\<close>

theorem findConnection_by_name:
  assumes "opt_instance options = Some n" and "n \<noteq> []"
  shows "(name c = Some n \<and> (\<forall>p\<in>set pre. name p \<noteq> Some n)
            \<longrightarrow> findConnection options (pre @ c # post) = Some c)
       \<and> ((\<forall>x\<in>set xs. name x \<noteq> Some n) \<longrightarrow> findConnection options xs = None)"
  using assms by (simp add: findConnection_def truthy_str_def find_first find_none)

theorem findConnection_by_name_witness:
  "opt_instance \<lparr>opt_instance = Some ''staging''\<rparr> = Some ''staging'' \<and> ''staging'' \<noteq> []
   \<and> findConnection \<lparr>opt_instance = Some ''staging''\<rparr>
        ([conn_dev] @ conn_staging # [conn_prod, conn_qa]) = Some conn_staging
   \<and> active conn_prod = Some True
   \<and> findConnection \<lparr>opt_instance = Some ''staging''\<rparr> [conn_dev, conn_prod, conn_qa] = None"
  using findConnection_by_name
    [of "\<lparr>opt_instance = Some ''staging''\<rparr>" "''staging''" conn_staging "[conn_dev]"
        "[conn_prod, conn_qa]" "[conn_dev, conn_prod, conn_qa]"]
  by (simp add: conn_prod_def conn_dev_def conn_staging_def conn_qa_def)

text \<open>
  C5 as stated fails for the empty name: with the instance \<open>""\<close> given, a record named
  \<open>""\<close> is passed over and the active record is returned; and where no record is named
  \<open>""\<close>, the active record is returned instead of nothing.
\<close>

theorem findConnection_empty_name_counterexample:
  "name conn_unnamed = Some [] \<and> name conn_qa \<noteq> Some []
   \<and> findConnection \<lparr>opt_instance = Some []\<rparr> [conn_unnamed, conn_qa] = Some conn_qa
   \<and> findConnection \<lparr>opt_instance = Some []\<rparr> [conn_qa] = Some conn_qa"
  by (simp add: findConnection_def truthy_str_def truthy_bool_def conn_unnamed_def conn_qa_def)

text \<open>
  C6. With no instance name, selection returns the first record of the flattened list
  whose active flag is true (so the earliest of several active ones), and nothing when
  no record is active.
\<close>

theorem findConnection_active:
  assumes "opt_instance options = None"
  shows "(active c = Some True \<and> (\<forall>p\<in>set pre. active p \<noteq> Some True)
            \<longrightarrow> findConnection options (pre @ c # post) = Some c)
       \<and> ((\<forall>x\<in>set xs. active x \<noteq> Some True) \<longrightarrow> findConnection options xs = None)"
  using assms
  by (simp add: findConnection_def truthy_str_def truthy_bool_def find_first find_none)

theorem findConnection_active_witness:
  "opt_instance \<lparr>opt_instance = None\<rparr> = None
   \<and> active conn_prod = Some True \<and> active conn_qa = Some True
   \<and> findConnection \<lparr>opt_instance = None\<rparr>
        ([conn_dev, conn_staging] @ conn_prod # [conn_qa]) = Some conn_prod
   \<and> findConnection \<lparr>opt_instance = None\<rparr> [conn_dev, conn_staging] = None"
  using findConnection_active
    [of "\<lparr>opt_instance = None\<rparr>" conn_prod "[conn_dev, conn_staging]" "[conn_qa]"
        "[conn_dev, conn_staging]"]
  by (simp add: conn_prod_def conn_dev_def conn_staging_def conn_qa_def)

lemma unnamed_settings:
  "getConnectionSettings scenario_unnamed (fs scenario_world)
       (projectFile scenario_unnamed scenario_world)
     = Inr (Some \<lparr> source = [conn_unnamed, conn_qa] \<rparr>)"
  by (simp add: getConnectionSettings_def projectFile_def existsSync_def readFileSync_def
        scenario_unnamed_def scenario_def scenario_world_def misc_xml_def)

lemma unnamed_flattened:
  "allConnections [conn_unnamed, conn_qa] = [conn_unnamed] @ conn_qa # []"
  by (simp add: allConnections_def conn_unnamed_def conn_qa_def)

lemma unnamed_decrypt:
  "decryptCredentials scenario_unnamed ''{store}'' ''0123456789abcdef01234567'' ''aes-192-ecb''
     = Inr (Some store)"
  by (simp add: decryptCredentials_def try_catch_def scenario_unnamed_def scenario_def)

lemma unnamed_assemble:
  "assemble scenario_unnamed scenario_world conn_qa =
     Inr \<lparr> cfg_hostname = Some ''h3'', webdavHostname = None,
           cfg_username = Some ''u3'', codeVersion = None, cfg_shortCode = None,
           cfg_clientId = None, password = Some ''secret3'', clientSecret = None \<rparr>"
proof -
  have base: "baseConfig conn_qa =
     \<lparr> cfg_hostname = Some ''h3'', webdavHostname = None,
       cfg_username = Some ''u3'', codeVersion = None, cfg_shortCode = None,
       cfg_clientId = None, password = None, clientSecret = None \<rparr>"
    by (simp add: baseConfig_def conn_qa_def truthy_bool_def)
  have "username conn_qa = Some ''u3''" and "hostname conn_qa = Some ''h3''"
    and "findPassword store ''u3'' ''h3'' = Some ''secret3''"
    by (simp_all add: conn_qa_def findPassword_def store_def)
  then have "lookupPassword store conn_qa (baseConfig conn_qa)
               = (baseConfig conn_qa)\<lparr>password := Some ''secret3''\<rparr>"
    by (simp add: lookupPassword_def Let_def truthy_str_def)
  then have "lookupClientSecret store (lookupPassword store conn_qa (baseConfig conn_qa))
               = (baseConfig conn_qa)\<lparr>password := Some ''secret3''\<rparr>"
    by (simp add: lookupClientSecret_def base)
  then show ?thesis
    by (simp add: assemble_def scenario_world_def existsSync_def readFileSync_def
          DEFAULT_ALGORITHM_def unnamed_decrypt base)
qed

text \<open>
  C10. \<open>load\<close> with the empty string as instance selector is \<open>load\<close> with no instance
  selector: the same result and the same object state, on every input. The selection it
  makes is the first record of the flattened list whose active flag is true, whatever
  the names of the records are (a record named \<open>""\<close> is not looked for): where the
  settings are read and are not empty, \<open>load\<close> returns what is assembled from that
  record, and nothing when no record is active.
\<close>

theorem load_empty_instance:
  "load P w (options\<lparr>opt_instance := Some []\<rparr>) this
     = load P w (options\<lparr>opt_instance := None\<rparr>) this
   \<and> findConnection (options\<lparr>opt_instance := Some []\<rparr>) xs
       = find (\<lambda>c. active c = Some True) xs
   \<and> (getConnectionSettings P (fs w) (projectFile P w) = Inr (Some settings)
        \<and> source settings \<noteq> []
        \<longrightarrow> resolveConnection P w (options\<lparr>opt_instance := Some []\<rparr>)
              = Inr (find (\<lambda>c. active c = Some True) (allConnections (source settings))))
   \<and> (getConnectionSettings P (fs w) (projectFile P w) = Inr (Some settings)
        \<and> source settings \<noteq> []
        \<and> allConnections (source settings) = pre @ c # post
        \<and> active c = Some True \<and> (\<forall>p\<in>set pre. active p \<noteq> Some True)
        \<longrightarrow> fst (load P w (options\<lparr>opt_instance := Some []\<rparr>) this)
              = (case assemble P w c of Inl e \<Rightarrow> Inl e | Inr config \<Rightarrow> Inr (Some config)))
   \<and> (getConnectionSettings P (fs w) (projectFile P w) = Inr (Some settings)
        \<and> source settings \<noteq> []
        \<and> (\<forall>x\<in>set (allConnections (source settings)). active x \<noteq> Some True)
        \<longrightarrow> fst (load P w (options\<lparr>opt_instance := Some []\<rparr>) this) = Inr None)"
proof -
  have sel: "findConnection (options\<lparr>opt_instance := Some []\<rparr>) ys
               = find (\<lambda>c. active c = Some True) ys" for ys
    by (simp add: findConnection_falsy_instance truthy_str_def truthy_bool_def)
  have same: "findConnection (options\<lparr>opt_instance := Some []\<rparr>) ys
                = findConnection (options\<lparr>opt_instance := None\<rparr>) ys" for ys
    by (simp add: findConnection_falsy_instance truthy_str_def)
  have "resolveConnection P w (options\<lparr>opt_instance := Some []\<rparr>)
          = resolveConnection P w (options\<lparr>opt_instance := None\<rparr>)"
    by (simp add: resolveConnection_def same split: sum.splits option.splits)
  then have eq: "load P w (options\<lparr>opt_instance := Some []\<rparr>) this
                   = load P w (options\<lparr>opt_instance := None\<rparr>) this"
    by (simp add: load_def)
  have res: "resolveConnection P w (options\<lparr>opt_instance := Some []\<rparr>)
               = Inr (find (\<lambda>c. active c = Some True) (allConnections (source settings)))"
    if "getConnectionSettings P (fs w) (projectFile P w) = Inr (Some settings)"
      and "source settings \<noteq> []"
    using that by (simp add: resolveConnection_def sel)
  have first: "fst (load P w (options\<lparr>opt_instance := Some []\<rparr>) this)
              = (case assemble P w c of Inl e \<Rightarrow> Inl e | Inr config \<Rightarrow> Inr (Some config))"
    if "getConnectionSettings P (fs w) (projectFile P w) = Inr (Some settings)"
      and "source settings \<noteq> []"
      and "allConnections (source settings) = pre @ c # post"
      and "active c = Some True" and "\<forall>p\<in>set pre. active p \<noteq> Some True"
  proof -
    from that(3,4,5)
    have "find (\<lambda>c. active c = Some True) (allConnections (source settings)) = Some c"
      by (simp add: find_first)
    with res [OF that(1,2)] show ?thesis
      by (simp add: load_def)
  qed
  have none: "fst (load P w (options\<lparr>opt_instance := Some []\<rparr>) this) = Inr None"
    if "getConnectionSettings P (fs w) (projectFile P w) = Inr (Some settings)"
      and "source settings \<noteq> []"
      and "\<forall>x\<in>set (allConnections (source settings)). active x \<noteq> Some True"
  proof -
    from that(3)
    have "find (\<lambda>c. active c = Some True) (allConnections (source settings)) = None"
      by (simp add: find_none)
    with res [OF that(1,2)] show ?thesis
      by (simp add: load_def)
  qed
  from eq sel res first none show ?thesis
    by blast
qed

theorem load_empty_instance_witness:
  "name conn_unnamed = Some [] \<and> active conn_unnamed \<noteq> Some True
   \<and> name conn_qa = Some ''qa'' \<and> active conn_qa = Some True
   \<and> getConnectionSettings scenario_unnamed (fs scenario_world)
         (projectFile scenario_unnamed scenario_world)
       = Inr (Some \<lparr> source = [conn_unnamed, conn_qa] \<rparr>)
   \<and> findConnection \<lparr>opt_instance = Some []\<rparr> [conn_unnamed, conn_qa] = Some conn_qa
   \<and> fst (load scenario_unnamed scenario_world \<lparr>opt_instance = Some []\<rparr>
             \<lparr>projectFilePath = None\<rparr>)
       = Inr (Some \<lparr> cfg_hostname = Some ''h3'', webdavHostname = None,
                     cfg_username = Some ''u3'', codeVersion = None, cfg_shortCode = None,
                     cfg_clientId = None, password = Some ''secret3'',
                     clientSecret = None \<rparr>)
   \<and> load scenario_unnamed scenario_world \<lparr>opt_instance = Some []\<rparr> \<lparr>projectFilePath = None\<rparr>
       = load scenario_unnamed scenario_world \<lparr>opt_instance = None\<rparr> \<lparr>projectFilePath = None\<rparr>"
proof -
  have recs: "name conn_unnamed = Some []" "active conn_unnamed \<noteq> Some True"
    "name conn_qa = Some ''qa''" "active conn_qa = Some True"
    by (simp_all add: conn_unnamed_def conn_qa_def)
  have flat: "allConnections (source \<lparr> source = [conn_unnamed, conn_qa] \<rparr>)
                = [conn_unnamed] @ conn_qa # []"
    by (simp add: unnamed_flattened)
  have pre: "\<forall>p\<in>set [conn_unnamed]. active p \<noteq> Some True"
    using recs(2) by simp
  have ne: "source \<lparr> source = [conn_unnamed, conn_qa] \<rparr> \<noteq> []"
    by simp
  note inst = load_empty_instance
    [of scenario_unnamed scenario_world "\<lparr>opt_instance = None\<rparr>" "\<lparr>projectFilePath = None\<rparr>"
        "[conn_unnamed, conn_qa]" "\<lparr> source = [conn_unnamed, conn_qa] \<rparr>"
        "[conn_unnamed]" conn_qa "[]"]
  from inst have eq: "load scenario_unnamed scenario_world \<lparr>opt_instance = Some []\<rparr>
                        \<lparr>projectFilePath = None\<rparr>
       = load scenario_unnamed scenario_world \<lparr>opt_instance = None\<rparr> \<lparr>projectFilePath = None\<rparr>"
    by simp
  from inst have "findConnection \<lparr>opt_instance = Some []\<rparr> [conn_unnamed, conn_qa]
                    = find (\<lambda>c. active c = Some True) [conn_unnamed, conn_qa]"
    by simp
  with recs have sel: "findConnection \<lparr>opt_instance = Some []\<rparr> [conn_unnamed, conn_qa]
                         = Some conn_qa"
    by simp
  from unnamed_settings ne flat recs(4) pre
  have "getConnectionSettings scenario_unnamed (fs scenario_world)
            (projectFile scenario_unnamed scenario_world)
          = Inr (Some \<lparr> source = [conn_unnamed, conn_qa] \<rparr>)
        \<and> source \<lparr> source = [conn_unnamed, conn_qa] \<rparr> \<noteq> []
        \<and> allConnections (source \<lparr> source = [conn_unnamed, conn_qa] \<rparr>)
            = [conn_unnamed] @ conn_qa # []
        \<and> active conn_qa = Some True
        \<and> (\<forall>p\<in>set [conn_unnamed]. active p \<noteq> Some True)"
    by (intro conjI)
  then
  have "fst (load scenario_unnamed scenario_world
               (\<lparr>opt_instance = None\<rparr>\<lparr>opt_instance := Some []\<rparr>) \<lparr>projectFilePath = None\<rparr>)
          = (case assemble scenario_unnamed scenario_world conn_qa of
               Inl e \<Rightarrow> Inl e | Inr config \<Rightarrow> Inr (Some config))"
    by (rule inst [THEN conjunct2, THEN conjunct2, THEN conjunct2, THEN conjunct1, THEN mp])
  then
  have "fst (load scenario_unnamed scenario_world \<lparr>opt_instance = Some []\<rparr>
               \<lparr>projectFilePath = None\<rparr>)
          = (case assemble scenario_unnamed scenario_world conn_qa of
               Inl e \<Rightarrow> Inl e | Inr config \<Rightarrow> Inr (Some config))"
    by simp
  then have run: "fst (load scenario_unnamed scenario_world \<lparr>opt_instance = Some []\<rparr>
                         \<lparr>projectFilePath = None\<rparr>)
       = Inr (Some \<lparr> cfg_hostname = Some ''h3'', webdavHostname = None,
                     cfg_username = Some ''u3'', codeVersion = None, cfg_shortCode = None,
                     cfg_clientId = None, password = Some ''secret3'',
                     clientSecret = None \<rparr>)"
    by (simp add: unnamed_assemble)
  from recs unnamed_settings sel run eq show ?thesis
    by (intro conjI)
qed

section \<open>The settings extractor\<close>

text \<open>
  Where the file is read and parsed without an exception, the function returns: every
  later failure is a return of \<open>undefined\<close>.
\<close>

lemma getConnectionSettings_returns:
  "files filename = None
     \<or> (files filename = Some (File content) \<and> xml_parse P content = Inr xml)
     \<Longrightarrow> \<exists>r. getConnectionSettings P files filename = Inr r"
  by (auto simp: getConnectionSettings_def existsSync_def readFileSync_def
           split: option.splits sum.splits)

text \<open>
  C2 does not hold of the code. The exception of \<open>readFileSync\<close> on a path that exists
  but is a directory, and any exception of the XML parser on the content, leave
  \<open>getConnectionSettings\<close>: neither call is inside its \<open>try\<close>.
\<close>

theorem getConnectionSettings_throws:
  "(files filename = Some Directory
      \<longrightarrow> getConnectionSettings P files filename = Inl (FsError ''EISDIR''))
   \<and> (files filename = Some (File content) \<and> xml_parse P content = Inl e
      \<longrightarrow> getConnectionSettings P files filename = Inl e)"
  by (simp add: getConnectionSettings_def existsSync_def readFileSync_def)

theorem getConnectionSettings_throws_witness:
  "getConnectionSettings scenario [''.idea'' \<mapsto> Directory] ''.idea'' = Inl (FsError ''EISDIR'')
   \<and> xml_parse scenario ''<project></project'' = Inl (XmlError ''Closing Tag is not closed.'')
   \<and> getConnectionSettings scenario [''misc.xml'' \<mapsto> File ''<project></project''] ''misc.xml''
       = Inl (XmlError ''Closing Tag is not closed.'')"
proof -
  have p: "xml_parse scenario ''<project></project'' = Inl (XmlError ''Closing Tag is not closed.'')"
    by (simp add: scenario_def)
  from p show ?thesis
    using getConnectionSettings_throws
            [of "[''.idea'' \<mapsto> Directory]" "''.idea''" scenario]
          getConnectionSettings_throws
            [of "[''misc.xml'' \<mapsto> File ''<project></project'']" "''misc.xml''" scenario
                "''<project></project''" "XmlError ''Closing Tag is not closed.''"]
    by simp
qed

section \<open>The credential vault\<close>

text \<open>
  C3. \<open>decryptCredentials\<close> always returns, a credential store or nothing, and never
  throws; a failure of any step (decoding the base64 text, creating the decipher with
  this key and algorithm, deciphering, the final block with its padding, parsing the
  JSON text) gives nothing.
\<close>

theorem decryptCredentials_absent_on_failure:
  "(decryptCredentials P cipherText key algorithm = Inr None
      \<or> (\<exists>credentials. decryptCredentials P cipherText key algorithm = Inr (Some credentials)))
   \<and> (buffer_from_base64 P cipherText = Inl e
        \<longrightarrow> decryptCredentials P cipherText key algorithm = Inr None)
   \<and> (createDecipheriv P algorithm key = Inl e
        \<longrightarrow> decryptCredentials P cipherText key algorithm = Inr None)
   \<and> (buffer_from_base64 P cipherText = Inr buffer \<and> createDecipheriv P algorithm key = Inr d
        \<and> decipher_update P d buffer = Inl e
        \<longrightarrow> decryptCredentials P cipherText key algorithm = Inr None)
   \<and> (buffer_from_base64 P cipherText = Inr buffer \<and> createDecipheriv P algorithm key = Inr d
        \<and> decipher_update P d buffer = Inr (out1, d') \<and> decipher_final P d' = Inl e
        \<longrightarrow> decryptCredentials P cipherText key algorithm = Inr None)
   \<and> (buffer_from_base64 P cipherText = Inr buffer \<and> createDecipheriv P algorithm key = Inr d
        \<and> decipher_update P d buffer = Inr (out1, d') \<and> decipher_final P d' = Inr out2
        \<and> json_parse_credentials P (buffer_toString_utf8 P (buffer_concat P [out1, out2]))
            = Inl e
        \<longrightarrow> decryptCredentials P cipherText key algorithm = Inr None)"
  by (auto simp: decryptCredentials_def try_catch_def split: sum.splits prod.splits)

theorem decryptCredentials_absent_on_failure_witness:
  "createDecipheriv scenario ''aes-192-ecb'' ''short'' = Inl (CipherError ''Invalid key length'')
   \<and> decryptCredentials scenario ''{store}'' ''short'' ''aes-192-ecb'' = Inr None
   \<and> createDecipheriv scenario ''aes-256-cbc'' ''0123456789abcdef01234567''
       = Inl (CipherError ''Invalid key length'')
   \<and> decryptCredentials scenario ''{store}'' ''0123456789abcdef01234567'' ''aes-256-cbc''
       = Inr None
   \<and> decipher_final scenario ''765432109876543210fedcba'' = Inl (CipherError ''bad decrypt'')
   \<and> decryptCredentials scenario ''{store}'' ''765432109876543210fedcba'' ''aes-192-ecb''
       = Inr None
   \<and> json_parse_credentials scenario ''not json'' = Inl (JsonError ''Unexpected token'')
   \<and> decryptCredentials scenario ''not json'' ''0123456789abcdef01234567'' ''aes-192-ecb''
       = Inr None"
proof -
  have steps:
    "createDecipheriv scenario ''aes-192-ecb'' ''short'' = Inl (CipherError ''Invalid key length'')"
    "createDecipheriv scenario ''aes-256-cbc'' ''0123456789abcdef01234567''
       = Inl (CipherError ''Invalid key length'')"
    "buffer_from_base64 scenario ''{store}'' = Inr ''{store}''"
    "buffer_from_base64 scenario ''not json'' = Inr ''not json''"
    "createDecipheriv scenario ''aes-192-ecb'' ''765432109876543210fedcba''
       = Inr ''765432109876543210fedcba''"
    "createDecipheriv scenario ''aes-192-ecb'' ''0123456789abcdef01234567''
       = Inr ''0123456789abcdef01234567''"
    "decipher_update scenario ''765432109876543210fedcba'' ''{store}''
       = Inr (''{store}'', ''765432109876543210fedcba'')"
    "decipher_update scenario ''0123456789abcdef01234567'' ''not json''
       = Inr (''not json'', ''0123456789abcdef01234567'')"
    "decipher_final scenario ''765432109876543210fedcba'' = Inl (CipherError ''bad decrypt'')"
    "decipher_final scenario ''0123456789abcdef01234567'' = Inr []"
    "json_parse_credentials scenario
       (buffer_toString_utf8 scenario (buffer_concat scenario [''not json'', []]))
       = Inl (JsonError ''Unexpected token'')"
    "json_parse_credentials scenario ''not json'' = Inl (JsonError ''Unexpected token'')"
    by (simp_all add: scenario_def)
  note fails = decryptCredentials_absent_on_failure [where P = scenario]
  have a: "decryptCredentials scenario ''{store}'' ''short'' ''aes-192-ecb'' = Inr None"
    using fails [of "''{store}''" "''short''" "''aes-192-ecb''"] steps(1) by blast
  have b: "decryptCredentials scenario ''{store}'' ''0123456789abcdef01234567'' ''aes-256-cbc''
             = Inr None"
    using fails [of "''{store}''" "''0123456789abcdef01234567''" "''aes-256-cbc''"] steps(2)
    by blast
  have c: "decryptCredentials scenario ''{store}'' ''765432109876543210fedcba'' ''aes-192-ecb''
             = Inr None"
    using fails [of "''{store}''" "''765432109876543210fedcba''" "''aes-192-ecb''"]
      steps(3,5,7,9) by blast
  have d: "decryptCredentials scenario ''not json'' ''0123456789abcdef01234567'' ''aes-192-ecb''
             = Inr None"
    using fails [of "''not json''" "''0123456789abcdef01234567''" "''aes-192-ecb''"]
      steps(4,6,8,10,11) by blast
  from steps(1,2,9,12) a b c d show ?thesis
    by (intro conjI)
qed

section \<open>The credential matcher\<close>

text \<open>
  C7. \<open>findPassword\<close> returns nothing when no account has the user name. When the
  (first) account of that name has no access keys, or no key set of that user name, or
  its key set has no entry for the host, or that entry has no WebDAV key or an empty
  one, the result is the account's plain password field, present or not; so an account
  with a plain password only yields that password.
\<close>

theorem findPassword_fallback:
  "((\<forall>a\<in>set (accounts credentials). a_username a \<noteq> uname)
       \<longrightarrow> findPassword credentials uname host = None)
   \<and> (find (\<lambda>a. a_username a = uname) (accounts credentials) = Some account
       \<and> (accessKeys account = None
            \<or> (\<exists>aks. accessKeys account = Some aks
                 \<and> (find (\<lambda>ak. ak_username ak = uname) aks = None
                      \<or> (\<exists>ak. find (\<lambda>ak. ak_username ak = uname) aks = Some ak
                           \<and> (keys ak host = None
                                \<or> (\<exists>hostKeys. keys ak host = Some hostKeys
                                     \<and> (hostKeys ''WebDAV'' = None
                                          \<or> hostKeys ''WebDAV'' = Some [])))))))
       \<longrightarrow> findPassword credentials uname host = a_password account)
   \<and> (find (\<lambda>a. a_username a = uname) (accounts credentials) = Some account
       \<and> accessKeys account = None \<and> a_password account = Some pw
       \<longrightarrow> findPassword credentials uname host = Some pw)"
proof (intro conjI impI)
  assume "\<forall>a\<in>set (accounts credentials). a_username a \<noteq> uname"
  then have "find (\<lambda>a. a_username a = uname) (accounts credentials) = None"
    by (simp add: find_None_iff)
  then show "findPassword credentials uname host = None"
    by (simp add: findPassword_def)
next
  assume "find (\<lambda>a. a_username a = uname) (accounts credentials) = Some account
       \<and> (accessKeys account = None
            \<or> (\<exists>aks. accessKeys account = Some aks
                 \<and> (find (\<lambda>ak. ak_username ak = uname) aks = None
                      \<or> (\<exists>ak. find (\<lambda>ak. ak_username ak = uname) aks = Some ak
                           \<and> (keys ak host = None
                                \<or> (\<exists>hostKeys. keys ak host = Some hostKeys
                                     \<and> (hostKeys ''WebDAV'' = None
                                          \<or> hostKeys ''WebDAV'' = Some [])))))))"
  then show "findPassword credentials uname host = a_password account"
    by (elim conjE disjE exE) (simp_all add: findPassword_def truthy_str_def)
next
  assume "find (\<lambda>a. a_username a = uname) (accounts credentials) = Some account
       \<and> accessKeys account = None \<and> a_password account = Some pw"
  then show "findPassword credentials uname host = Some pw"
    by (simp add: findPassword_def)
qed

theorem findPassword_fallback_witness:
  "findPassword store ''nobody'' ''h1'' = None
   \<and> findPassword store_empty_key ''u1'' ''h1'' = a_password empty_key_account
   \<and> findPassword store_duplicate ''u1'' ''h1'' = Some ''old''"
proof -
  have "\<forall>a\<in>set (accounts store). a_username a \<noteq> ''nobody''"
    by (simp add: store_def)
  with findPassword_fallback [of store "''nobody''" "''h1''"]
  have a: "findPassword store ''nobody'' ''h1'' = None"
    by blast
  have "find (\<lambda>a. a_username a = ''u1'') (accounts store_empty_key) = Some empty_key_account"
    and "accessKeys empty_key_account = Some [empty_key_set]"
    and "find (\<lambda>ak. ak_username ak = ''u1'') [empty_key_set] = Some empty_key_set"
    and "keys empty_key_set ''h1'' = Some [''WebDAV'' \<mapsto> []]"
    and "[''WebDAV'' \<mapsto> []] ''WebDAV'' = Some []"
    by (simp_all add: store_empty_key_def empty_key_account_def empty_key_set_def)
  with findPassword_fallback [of store_empty_key "''u1''" "''h1''" empty_key_account]
  have b: "findPassword store_empty_key ''u1'' ''h1'' = a_password empty_key_account"
    by blast
  have "find (\<lambda>a. a_username a = ''u1'') (accounts store_duplicate) = Some plain_account"
    and "accessKeys plain_account = None" and "a_password plain_account = Some ''old''"
    by (simp_all add: store_duplicate_def plain_account_def)
  with findPassword_fallback [of store_duplicate "''u1''" "''h1''" plain_account "''old''"]
  have c: "findPassword store_duplicate ''u1'' ''h1'' = Some ''old''"
    by blast
  from a b c show ?thesis
    by (intro conjI)
qed

text \<open>
  C4, as amended. When the first account of the user name has, as its first key set of
  that user name, one whose entry for the host holds a non-empty WebDAV key,
  \<open>findPassword\<close> returns that key, whatever the account's plain password is.
\<close>

theorem findPassword_webdav_first:
  assumes "find (\<lambda>a. a_username a = uname) (accounts credentials) = Some account"
    and "accessKeys account = Some aks"
    and "find (\<lambda>ak. ak_username ak = uname) aks = Some ak"
    and "keys ak host = Some hostKeys"
    and "hostKeys ''WebDAV'' = Some key"
    and "key \<noteq> []"
  shows "findPassword credentials uname host = Some key"
  using assms by (simp add: findPassword_def truthy_str_def)

theorem findPassword_webdav_first_witness:
  "a_password keyed_account = Some ''secret2''
   \<and> findPassword \<lparr> accounts = [keyed_account], ocapiKeys = [] \<rparr> ''u1'' ''h1''
       = Some ''secret1''"
proof -
  have "find (\<lambda>a. a_username a = ''u1'')
          (accounts \<lparr> accounts = [keyed_account], ocapiKeys = [] \<rparr>) = Some keyed_account"
    and "accessKeys keyed_account
           = Some [\<lparr> ak_username = ''u1'',
                     keys = [''h1'' \<mapsto> [''WebDAV'' \<mapsto> ''secret1'']] \<rparr>]"
    and "find (\<lambda>ak. ak_username ak = ''u1'')
           [\<lparr> ak_username = ''u1'', keys = [''h1'' \<mapsto> [''WebDAV'' \<mapsto> ''secret1'']] \<rparr>]
           = Some \<lparr> ak_username = ''u1'',
                    keys = [''h1'' \<mapsto> [''WebDAV'' \<mapsto> ''secret1'']] \<rparr>"
    and "keys \<lparr> ak_username = ''u1'', keys = [''h1'' \<mapsto> [''WebDAV'' \<mapsto> ''secret1'']] \<rparr> ''h1''
           = Some [''WebDAV'' \<mapsto> ''secret1'']"
    and "[''WebDAV'' \<mapsto> ''secret1''] ''WebDAV'' = Some ''secret1''"
    and "''secret1'' \<noteq> []"
    by (simp_all add: keyed_account_def)
  then have "findPassword \<lparr> accounts = [keyed_account], ocapiKeys = [] \<rparr> ''u1'' ''h1''
               = Some ''secret1''"
    by (rule findPassword_webdav_first)
  then show ?thesis
    by (simp add: keyed_account_def)
qed

text \<open>
  C4 as stated fails twice. An account whose key set has the empty string as the WebDAV
  entry of the host yields the plain password, not that entry; and of two accounts of
  one user name the first is used, so a WebDAV key held by the second is not returned.
\<close>

theorem findPassword_webdav_counterexample:
  "accounts store_empty_key = [empty_key_account]
   \<and> a_username empty_key_account = ''u1''
   \<and> accessKeys empty_key_account = Some [empty_key_set]
   \<and> ak_username empty_key_set = ''u1''
   \<and> keys empty_key_set ''h1'' = Some [''WebDAV'' \<mapsto> []]
   \<and> findPassword store_empty_key ''u1'' ''h1'' = Some ''secret2''
   \<and> keyed_account \<in> set (accounts store_duplicate)
   \<and> findPassword \<lparr> accounts = [keyed_account], ocapiKeys = [] \<rparr> ''u1'' ''h1''
       = Some ''secret1''
   \<and> findPassword store_duplicate ''u1'' ''h1'' = Some ''old''"
  by (simp add: findPassword_def truthy_str_def store_empty_key_def empty_key_account_def
        empty_key_set_def store_duplicate_def plain_account_def keyed_account_def)

section \<open>The assembled configuration\<close>

lemma load_returns:
  assumes "fst (load P w options this) = Inr (Some config)"
  obtains connection where "resolveConnection P w options = Inr (Some connection)"
    and "assemble P w connection = Inr config"
  using assms by (auto simp: load_def split: sum.splits option.splits)

lemma assemble_cases:
  assumes "assemble P w connection = Inr config"
  shows "config = baseConfig connection
       \<or> (\<exists>credentials. config = lookupClientSecret credentials
                                    (lookupPassword credentials connection (baseConfig connection)))"
  using assms
  by (auto simp: assemble_def Let_def split: option.splits sum.splits if_splits)

lemma lookupPassword_fields:
  "cfg_clientId (lookupPassword credentials connection config) = cfg_clientId config"
  "clientSecret (lookupPassword credentials connection config) = clientSecret config"
  "password config \<noteq> Some []
     \<Longrightarrow> password (lookupPassword credentials connection config) \<noteq> Some []"
  by (auto simp: lookupPassword_def Let_def truthy_str_def split: option.splits)

lemma lookupClientSecret_fields:
  "cfg_clientId (lookupClientSecret credentials config) = cfg_clientId config"
  "password (lookupClientSecret credentials config) = password config"
  "clientSecret config \<noteq> Some []
     \<Longrightarrow> clientSecret (lookupClientSecret credentials config) \<noteq> Some []"
  by (auto simp: lookupClientSecret_def Let_def truthy_str_def split: option.splits)

lemma scenario_resolve_staging:
  "resolveConnection scenario scenario_world \<lparr>opt_instance = Some ''staging''\<rparr>
     = Inr (Some conn_staging)"
proof -
  have "findConnection \<lparr>opt_instance = Some ''staging''\<rparr>
          [conn_dev, conn_staging, conn_prod, conn_qa] = Some conn_staging"
    by (simp add: findConnection_def truthy_str_def conn_dev_def conn_staging_def)
  then show ?thesis
    by (simp add: resolveConnection_def scenario_settings scenario_flattened)
qed

lemma scenario_load_staging:
  "fst (load scenario scenario_world \<lparr>opt_instance = Some ''staging''\<rparr> this) =
     Inr (Some \<lparr> cfg_hostname = Some ''h0'', webdavHostname = None,
                 cfg_username = Some ''u0'', codeVersion = None, cfg_shortCode = None,
                 cfg_clientId = None, password = None, clientSecret = None \<rparr>)"
proof -
  have base: "baseConfig conn_staging =
     \<lparr> cfg_hostname = Some ''h0'', webdavHostname = None,
       cfg_username = Some ''u0'', codeVersion = None, cfg_shortCode = None,
       cfg_clientId = None, password = None, clientSecret = None \<rparr>"
    by (simp add: baseConfig_def conn_staging_def truthy_bool_def)
  have "username conn_staging = Some ''u0''" and "hostname conn_staging = Some ''h0''"
    and "findPassword store ''u0'' ''h0'' = None"
    by (simp_all add: conn_staging_def findPassword_def store_def)
  then have "lookupPassword store conn_staging (baseConfig conn_staging)
               = baseConfig conn_staging"
    by (simp add: lookupPassword_def Let_def truthy_str_def)
  then have "lookupClientSecret store (lookupPassword store conn_staging (baseConfig conn_staging))
               = baseConfig conn_staging"
    by (simp add: lookupClientSecret_def base)
  then have "assemble scenario scenario_world conn_staging = Inr (baseConfig conn_staging)"
    by (simp add: assemble_def scenario_world_def existsSync_def readFileSync_def
          DEFAULT_ALGORITHM_def scenario_decrypt)
  then show ?thesis
    by (simp add: load_def scenario_resolve_staging base)
qed

text \<open>
  C8. Whenever \<open>load\<close> returns a configuration, it was built from the connection that
  was resolved, and its \<open>clientId\<close> is present exactly when that connection has
  \<open>useOcapi = true\<close> and a non-empty \<open>clientId\<close>; it is then that \<open>clientId\<close>.
\<close>

theorem load_clientId:
  assumes "fst (load P w options this) = Inr (Some config)"
  shows "\<exists>connection. resolveConnection P w options = Inr (Some connection)
           \<and> (cfg_clientId config \<noteq> None
                 \<longleftrightarrow> useOcapi connection = Some True
                     \<and> (\<exists>cid. clientId connection = Some cid \<and> cid \<noteq> []))
           \<and> (cfg_clientId config \<noteq> None \<longrightarrow> cfg_clientId config = clientId connection)"
proof -
  from assms obtain connection
    where r: "resolveConnection P w options = Inr (Some connection)"
      and a: "assemble P w connection = Inr config"
    by (rule load_returns)
  have "cfg_clientId config = cfg_clientId (baseConfig connection)"
    using assemble_cases [OF a]
    by (auto simp: lookupPassword_fields lookupClientSecret_fields)
  then show ?thesis using r
    by (auto simp: baseConfig_def truthy_bool_def truthy_str_def split: option.splits)
qed

theorem load_clientId_witness:
  "(\<exists>config. fst (load scenario scenario_world \<lparr>opt_instance = None\<rparr>
                    \<lparr>projectFilePath = None\<rparr>) = Inr (Some config)
       \<and> cfg_clientId config = Some ''cid1'')
   \<and> useOcapi conn_prod = Some True \<and> clientId conn_prod = Some ''cid1''
   \<and> (\<exists>config. fst (load scenario scenario_world \<lparr>opt_instance = Some ''staging''\<rparr>
                    \<lparr>projectFilePath = None\<rparr>) = Inr (Some config)
       \<and> cfg_clientId config = None)
   \<and> useOcapi conn_staging = Some False \<and> clientId conn_staging = Some ''cid0''"
proof -
  from load_clientId [OF scenario_load] scenario_resolve
  have "cfg_clientId \<lparr> cfg_hostname = Some ''h1'', webdavHostname = Some ''cert.h1'',
                 cfg_username = Some ''u1'', codeVersion = Some ''v1'',
                 cfg_shortCode = Some ''sc'', cfg_clientId = Some ''cid1'',
                 password = Some ''secret1'', clientSecret = Some ''cs1'' \<rparr> = clientId conn_prod"
    by auto
  then have p: "clientId conn_prod = Some ''cid1''"
    by simp
  from load_clientId [OF scenario_load_staging] scenario_resolve_staging
  have s: "\<not> (useOcapi conn_staging = Some True
              \<and> (\<exists>cid. clientId conn_staging = Some cid \<and> cid \<noteq> []))"
    by auto
  have "clientId conn_staging = Some ''cid0''" and "useOcapi conn_prod = Some True"
    by (simp_all add: conn_staging_def conn_prod_def)
  with s p scenario_load [of "\<lparr>projectFilePath = None\<rparr>"]
    scenario_load_staging [of "\<lparr>projectFilePath = None\<rparr>"]
  show ?thesis
    by (simp add: conn_staging_def)
qed

text \<open>
  C9. In every configuration \<open>load\<close> returns, a password that is set is a non-empty
  string and a client secret that is set is a non-empty string; a lookup that finds the
  empty string leaves the configuration as it was.
\<close>

theorem load_secrets_nonempty:
  assumes "fst (load P w options this) = Inr (Some config)"
  shows "password config \<noteq> Some [] \<and> clientSecret config \<noteq> Some []
       \<and> (username connection = Some u \<and> hostname connection = Some h
            \<and> findPassword credentials u h = Some []
            \<longrightarrow> lookupPassword credentials connection cfg = cfg)
       \<and> (cfg_clientId cfg = Some cid \<and> findClientSecret credentials cid = Some []
            \<longrightarrow> lookupClientSecret credentials cfg = cfg)"
proof -
  from assms obtain c where a: "assemble P w c = Inr config"
    by (rule load_returns)
  have "password (baseConfig c) \<noteq> Some []" and "clientSecret (baseConfig c) \<noteq> Some []"
    by (simp_all add: baseConfig_def)
  with assemble_cases [OF a]
  have "password config \<noteq> Some [] \<and> clientSecret config \<noteq> Some []"
    by (auto simp: lookupPassword_fields lookupClientSecret_fields)
  moreover have "username connection = Some u \<and> hostname connection = Some h
            \<and> findPassword credentials u h = Some []
            \<longrightarrow> lookupPassword credentials connection cfg = cfg"
    by (simp add: lookupPassword_def Let_def truthy_str_def)
  moreover have "cfg_clientId cfg = Some cid \<and> findClientSecret credentials cid = Some []
            \<longrightarrow> lookupClientSecret credentials cfg = cfg"
    by (simp add: lookupClientSecret_def Let_def truthy_str_def)
  ultimately show ?thesis
    by blast
qed

theorem load_secrets_nonempty_witness:
  "fst (load scenario scenario_world \<lparr>opt_instance = None\<rparr> \<lparr>projectFilePath = None\<rparr>)
     = Inr (Some (lookupClientSecret store (lookupPassword store conn_prod (baseConfig conn_prod))))
   \<and> password (lookupClientSecret store (lookupPassword store conn_prod (baseConfig conn_prod)))
       = Some ''secret1''
   \<and> clientSecret (lookupClientSecret store (lookupPassword store conn_prod (baseConfig conn_prod)))
       = Some ''cs1''
   \<and> findPassword store_blank ''u1'' ''h1'' = Some []
   \<and> lookupPassword store_blank conn_prod (baseConfig conn_prod) = baseConfig conn_prod
   \<and> findClientSecret store_blank ''cid1'' = Some []
   \<and> lookupClientSecret store_blank (baseConfig conn_prod) = baseConfig conn_prod"
proof -
  have run: "fst (load scenario scenario_world \<lparr>opt_instance = None\<rparr> \<lparr>projectFilePath = None\<rparr>)
     = Inr (Some (lookupClientSecret store (lookupPassword store conn_prod (baseConfig conn_prod))))"
    by (simp add: scenario_load scenario_lookup)
  have blank: "username conn_prod = Some ''u1''" "hostname conn_prod = Some ''h1''"
    "findPassword store_blank ''u1'' ''h1'' = Some []"
    "cfg_clientId (baseConfig conn_prod) = Some ''cid1''"
    "findClientSecret store_blank ''cid1'' = Some []"
    by (simp_all add: scenario_base)
      (simp_all add: conn_prod_def findPassword_def findClientSecret_def store_blank_def)
  note inv = load_secrets_nonempty
    [OF run, of conn_prod "''u1''" "''h1''" store_blank "baseConfig conn_prod" "''cid1''"]
  from inv blank have "lookupPassword store_blank conn_prod (baseConfig conn_prod) = baseConfig conn_prod"
    and "lookupClientSecret store_blank (baseConfig conn_prod) = baseConfig conn_prod"
    by blast+
  with run blank show ?thesis
    by (simp add: scenario_lookup)
qed

end
